theory Spec2Isabelle
  imports Main
begin

section \<open>Structuring command line of beep: \<^verbatim>\<open>src/beep/structure/cli.py\<close>\<close>

text \<open>
  The module has two functions. \<^verbatim>\<open>auto_load\<close> picks a datapath class for a file
  by matching the file name against the patterns of the conversion schemas, and
  \<^verbatim>\<open>process_file_list_from_json\<close> runs a manifest of files through it and reports the
  outcome. Everything the module reaches outside itself (the JSON loaders, the
  environment, the file system, the datapath classes, the serialiser and the workflow
  sink) is a field of an environment record or an event of a trace, so that what the
  module itself decides can be stated and proved.
\<close>

subsection \<open>Patterns and \<^verbatim>\<open>re.match\<close>\<close>

text \<open>
  The file patterns live in \<^verbatim>\<open>beep.conversion_schemas\<close>, which is not part of the
  sources at hand, so they are parameters. A pattern is a regular expression built from
  the empty expression, character classes (Python's dot is the class of all characters
  but the newline), concatenation, alternation and repetition; anchors, look-around and
  back-references are outside this fragment. \<open>accepts r w\<close> says that the whole of
  \<open>w\<close> is a word of \<open>r\<close>. \<open>re_match r w\<close> is \<^verbatim>\<open>re.match(r, w) is not None\<close>: the
  match is anchored at the start of \<open>w\<close> and may stop anywhere. It is computed with
  derivatives.
\<close>

datatype regex =
    Fail
  | Empty
  | Class "char \<Rightarrow> bool"
  | Cat regex regex
  | Or regex regex
  | Rep regex

inductive accepts :: "regex \<Rightarrow> string \<Rightarrow> bool" where
  acc_Empty: "accepts Empty []"
| acc_Class: "P c \<Longrightarrow> accepts (Class P) [c]"
| acc_Cat: "accepts r u \<Longrightarrow> accepts t v \<Longrightarrow> accepts (Cat r t) (u @ v)"
| acc_OrL: "accepts r u \<Longrightarrow> accepts (Or r t) u"
| acc_OrR: "accepts t u \<Longrightarrow> accepts (Or r t) u"
| acc_Rep0: "accepts (Rep r) []"
| acc_RepS: "accepts r u \<Longrightarrow> accepts (Rep r) v \<Longrightarrow> accepts (Rep r) (u @ v)"

fun nullable :: "regex \<Rightarrow> bool" where
  "nullable Fail = False"
| "nullable Empty = True"
| "nullable (Class P) = False"
| "nullable (Cat r t) = (nullable r \<and> nullable t)"
| "nullable (Or r t) = (nullable r \<or> nullable t)"
| "nullable (Rep r) = True"

fun step :: "char \<Rightarrow> regex \<Rightarrow> regex" where
  "step c Fail = Fail"
| "step c Empty = Fail"
| "step c (Class P) = (if P c then Empty else Fail)"
| "step c (Cat r t) =
     (if nullable r then Or (Cat (step c r) t) (step c t) else Cat (step c r) t)"
| "step c (Or r t) = Or (step c r) (step c t)"
| "step c (Rep r) = Cat (step c r) (Rep r)"

fun re_match :: "regex \<Rightarrow> string \<Rightarrow> bool" where
  "re_match r [] = nullable r"
| "re_match r (c # cs) = (nullable r \<or> re_match (step c r) cs)"

subsection \<open>String helpers and \<^verbatim>\<open>os.path\<close> (POSIX flavour)\<close>

text \<open>
  \<^verbatim>\<open>rfind\<close>, \<^verbatim>\<open>basename\<close>, \<^verbatim>\<open>splitext\<close>, \<^verbatim>\<open>join\<close>,
  \<^verbatim>\<open>normpath\<close> and \<^verbatim>\<open>abspath\<close> follow CPython's \<^verbatim>\<open>str\<close> and
  \<^verbatim>\<open>posixpath\<close>, index arithmetic included: \<open>rfind\<close> is the index of the last
  occurrence or \<open>-1\<close>, \<open>splitext\<close> skips the dots that lead the last component, and
  \<open>join\<close> drops what precedes an absolute second argument. \<open>abspath\<close> takes the
  current directory as an argument.
\<close>

definition startswith :: "string \<Rightarrow> string \<Rightarrow> bool" where
  "startswith s p = (take (length p) s = p)"

definition endswith :: "string \<Rightarrow> string \<Rightarrow> bool" where
  "endswith s p = (length p \<le> length s \<and> drop (length s - length p) s = p)"

definition rfind :: "string \<Rightarrow> char \<Rightarrow> int" where
  "rfind p c =
     (if c \<in> set p then int (length p - 1 - length (takeWhile (\<lambda>x. x \<noteq> c) (rev p)))
      else - 1)"

definition basename :: "string \<Rightarrow> string" where
  "basename p = drop (nat (rfind p CHR ''/'' + 1)) p"

definition splitext :: "string \<Rightarrow> string \<times> string" where
  "splitext p =
     (let sepIndex = rfind p CHR ''/'';
          dotIndex = rfind p CHR ''.''
      in if sepIndex < dotIndex \<and>
            list_ex (\<lambda>c. c \<noteq> CHR ''.'')
              (take (nat (dotIndex - (sepIndex + 1))) (drop (nat (sepIndex + 1)) p))
         then (take (nat dotIndex) p, drop (nat dotIndex) p)
         else (p, []))"

definition join :: "string \<Rightarrow> string \<Rightarrow> string" where
  "join a b =
     (if startswith b ''/'' then b
      else if a = [] \<or> endswith a ''/'' then a @ b
      else a @ ''/'' @ b)"

fun split_on :: "char \<Rightarrow> string \<Rightarrow> string list" where
  "split_on c [] = [[]]"
| "split_on c (x # xs) =
     (if x = c then [] # split_on c xs
      else (case split_on c xs of [] \<Rightarrow> [[x]] | y # ys \<Rightarrow> (x # y) # ys))"

fun join_sep :: "string list \<Rightarrow> string" where
  "join_sep [] = []"
| "join_sep [x] = x"
| "join_sep (x # y # ys) = x @ ''/'' @ join_sep (y # ys)"

fun norm_comps :: "bool \<Rightarrow> string list \<Rightarrow> string list \<Rightarrow> string list" where
  "norm_comps ini [] new_comps = new_comps"
| "norm_comps ini (part # comps) new_comps =
     (if part = [] \<or> part = ''.'' then norm_comps ini comps new_comps
      else if part \<noteq> ''..'' \<or> (\<not> ini \<and> new_comps = []) \<or>
              (new_comps \<noteq> [] \<and> last new_comps = ''..'')
        then norm_comps ini comps (new_comps @ [part])
      else if new_comps \<noteq> [] then norm_comps ini comps (butlast new_comps)
      else norm_comps ini comps new_comps)"

definition normpath :: "string \<Rightarrow> string" where
  "normpath path =
     (if path = [] then ''.''
      else
        let initial_slashes =
              (if startswith path ''/''
               then (if startswith path ''//'' \<and> \<not> startswith path ''///'' then 2 else 1)
               else (0::nat));
            comps = norm_comps (initial_slashes \<noteq> 0) (split_on CHR ''/'' path) [];
            joined = replicate initial_slashes CHR ''/'' @ join_sep comps
        in if joined = [] then ''.'' else joined)"

definition abspath :: "string \<Rightarrow> string \<Rightarrow> string" where
  "abspath cwd path = normpath (if startswith path ''/'' then path else join cwd path)"

text \<open>
  Modelled from the spec: \<^verbatim>\<open>add_suffix_to_filename\<close> of \<^verbatim>\<open>beep.collate\<close> is not
  among the sources. The specification says that the structuring suffix marker is put
  before the final extension of the name (\<^verbatim>\<open>base_structure.json\<close>); the extension is
  the one \<^verbatim>\<open>os.path.splitext\<close> finds.
\<close>

definition add_suffix_to_filename :: "string \<Rightarrow> string \<Rightarrow> string" where
  "add_suffix_to_filename fname suffix =
     (case splitext fname of (name, ext) \<Rightarrow> name @ suffix @ ext)"

subsection \<open>Data of the module\<close>

text \<open>
  Exceptions are values. The module itself raises \<open>NameError\<close> (an unbound global),
  \<open>KeyError\<close> (a manifest without one of its keys), \<open>ValueError\<close> (no pattern
  matches) and \<open>IndexError\<close> (reading index 0 of an empty list); \<open>OSError\<close> and
  \<open>Raised\<close> stand for what the collaborators may raise.
\<close>

datatype exn =
    NameError string
  | KeyError string
  | ValueError string
  | IndexError
  | OSError string
  | Raised string

text \<open>The five datapath classes \<^verbatim>\<open>auto_load\<close> can construct.\<close>

datatype handler =
    ArbinDatapath
  | MaccorDatapath
  | IndigoDatapath
  | BiologicDatapath
  | NewareDatapath

text \<open>A conversion schema, of which only the key \<^verbatim>\<open>"file_pattern"\<close> is read.\<close>

record config =
  file_pattern :: regex

text \<open>
  The parsed manifest \<^verbatim>\<open>file_list_data\<close>: the keys \<^verbatim>\<open>"file_list"\<close>,
  \<^verbatim>\<open>"validity"\<close> and \<^verbatim>\<open>"run_list"\<close>, each possibly absent. Run identifiers are
  opaque (\<open>'r\<close>).
\<close>

record 'r file_list_data =
  in_file_list :: "string list option"
  in_validity :: "string list option"
  in_run_list :: "'r list option"

text \<open>The message object \<^verbatim>\<open>{"comment": ..., "error": ...}\<close>.\<close>

record message =
  comment :: string
  error :: string

text \<open>
  \<^verbatim>\<open>output_json\<close>, with the keys of the source as fields. The five lists
  \<^verbatim>\<open>processed_file_list\<close>, \<^verbatim>\<open>processed_run_list\<close>, \<^verbatim>\<open>processed_result_list\<close>,
  \<^verbatim>\<open>processed_message_list\<close> and \<^verbatim>\<open>invalid_file_list\<close> that the loop appends to
  are the fields of this record, in that order: lines 92 to 98 only put them under
  their keys.
\<close>

record 'r output_json =
  file_list :: "string list"
  run_list :: "'r list"
  result_list :: "string list"
  message_list :: "message list"
  invalid_file_list :: "string list"

text \<open>\<^verbatim>\<open>output_data\<close>, the record handed to the workflow sink.\<close>

record 'r output_data =
  od_filename :: string
  od_run_id :: "'r"
  od_result :: string

text \<open>
  What the module does to the outside, in the order it does it. A call is recorded
  when it is made, whether it then returns or raises. \<^verbatim>\<open>logger.info\<close> has no event:
  line 67 never gets as far as calling it.
\<close>

datatype ('r, 'dp) event =
    Makedirs string
  | LogWarning string
  | FromFile handler string
  | Structure 'dp
  | Dumpfn 'dp string
  | PutWorkflowOutputs "'r output_data" string

text \<open>The state outside the module: the paths that exist, and the trace so far.\<close>

record ('r, 'dp) world =
  fs :: "string set"
  trace :: "('r, 'dp) event list"

text \<open>
  The collaborators. \<open>loadfn\<close> and \<open>json_loads\<close> parse the manifest;
  \<open>environ\<close> is \<^verbatim>\<open>os.environ\<close> and \<open>getcwd\<close> the current directory;
  \<open>makedirs_error\<close>, \<open>dumpfn_error\<close> and \<open>put_workflow_outputs_error\<close> say
  whether the call raises (\<open>None\<close>: it returns); the seven schemas are those the module
  imports; \<open>from_file\<close> is the class method of each datapath class and
  \<open>dp_structure\<close> the method \<^verbatim>\<open>dp.structure()\<close>, which returns the object as it
  has changed it.
\<close>

record ('r, 'dp) env =
  loadfn :: "string \<Rightarrow> exn + 'r file_list_data"
  json_loads :: "string \<Rightarrow> exn + 'r file_list_data"
  environ :: "string \<rightharpoonup> string"
  getcwd :: string
  makedirs_error :: "string \<Rightarrow> exn option"
  FastCharge_CONFIG :: config
  xTesladiag_CONFIG :: config
  ARBIN_CONFIG :: config
  MACCOR_CONFIG :: config
  INDIGO_CONFIG :: config
  BIOLOGIC_CONFIG :: config
  NEWARE_CONFIG :: config
  from_file :: "handler \<Rightarrow> string \<Rightarrow> exn + 'dp"
  dp_structure :: "'dp \<Rightarrow> exn + 'dp"
  dumpfn_error :: "'dp \<Rightarrow> string \<Rightarrow> exn option"
  put_workflow_outputs_error :: "'r output_data \<Rightarrow> string \<Rightarrow> exn option"

type_synonym ('r, 'dp, 'a) run = "('r, 'dp) world \<Rightarrow> (exn + 'a) \<times> ('r, 'dp) world"

subsection \<open>Calls to the collaborators\<close>

definition emit :: "('r, 'dp) event \<Rightarrow> ('r, 'dp) world \<Rightarrow> ('r, 'dp) world" where
  "emit ev w = w\<lparr>trace := trace w @ [ev]\<rparr>"

definition os_path_exists :: "string \<Rightarrow> ('r, 'dp) world \<Rightarrow> bool" where
  "os_path_exists p w = (p \<in> fs w)"

definition os_makedirs :: "('r, 'dp) env \<Rightarrow> string \<Rightarrow> ('r, 'dp, unit) run" where
  "os_makedirs env p w =
     (case makedirs_error env p of
        Some e \<Rightarrow> (Inl e, emit (Makedirs p) w)
      | None \<Rightarrow> (Inr (), emit (Makedirs p) (w\<lparr>fs := insert p (fs w)\<rparr>)))"

definition call_from_file :: "('r, 'dp) env \<Rightarrow> handler \<Rightarrow> string \<Rightarrow> ('r, 'dp, 'dp) run" where
  "call_from_file env h fname w = (from_file env h fname, emit (FromFile h fname) w)"

definition call_structure :: "('r, 'dp) env \<Rightarrow> 'dp \<Rightarrow> ('r, 'dp, 'dp) run" where
  "call_structure env dp w = (dp_structure env dp, emit (Structure dp) w)"

definition dumpfn :: "('r, 'dp) env \<Rightarrow> 'dp \<Rightarrow> string \<Rightarrow> ('r, 'dp, unit) run" where
  "dumpfn env dp loc w =
     (case dumpfn_error env dp loc of
        Some e \<Rightarrow> (Inl e, emit (Dumpfn dp loc) w)
      | None \<Rightarrow> (Inr (), emit (Dumpfn dp loc) (w\<lparr>fs := insert loc (fs w)\<rparr>)))"

definition logger_warning :: "string \<Rightarrow> ('r, 'dp) world \<Rightarrow> ('r, 'dp) world" where
  "logger_warning msg w = emit (LogWarning msg) w"

definition put_workflow_outputs ::
  "('r, 'dp) env \<Rightarrow> 'r output_data \<Rightarrow> string \<Rightarrow> ('r, 'dp, unit) run" where
  "put_workflow_outputs env od label w =
     (case put_workflow_outputs_error env od label of
        Some e \<Rightarrow> (Inl e, emit (PutWorkflowOutputs od label) w)
      | None \<Rightarrow> (Inr (), emit (PutWorkflowOutputs od label) w))"

subsection \<open>\<^verbatim>\<open>auto_load\<close> (lines 117 to 141)\<close>

definition auto_load :: "('r, 'dp) env \<Rightarrow> string \<Rightarrow> ('r, 'dp, 'dp) run" where
  "auto_load env fname w =
     (if re_match (file_pattern (ARBIN_CONFIG env)) fname \<or>
         re_match (file_pattern (FastCharge_CONFIG env)) fname
      then call_from_file env ArbinDatapath fname w
      else if re_match (file_pattern (MACCOR_CONFIG env)) fname \<or>
              re_match (file_pattern (xTesladiag_CONFIG env)) fname
      then call_from_file env MaccorDatapath fname w
      else if re_match (file_pattern (INDIGO_CONFIG env)) fname
      then call_from_file env IndigoDatapath fname w
      else if re_match (file_pattern (BIOLOGIC_CONFIG env)) fname
      then call_from_file env BiologicDatapath fname w
      else if re_match (file_pattern (NEWARE_CONFIG env)) fname
      then call_from_file env NewareDatapath fname w
      else (Inl (ValueError (fname @ '' does not match any known file pattern'')), w))"

subsection \<open>\<^verbatim>\<open>process_file_list_from_json\<close> (lines 18 to 114)\<close>

text \<open>Lines 42 to 45: a name ending in \<^verbatim>\<open>.json\<close> is a file, anything else a JSON string.\<close>

definition load_file_list_data :: "('r, 'dp) env \<Rightarrow> string \<Rightarrow> exn + 'r file_list_data" where
  "load_file_list_data env file_list_json =
     (if endswith file_list_json ''.json'' then loadfn env file_list_json
      else json_loads env file_list_json)"

text \<open>
  Lines 51 to 56: the output directory under the optional root, made when it does not
  exist. The result is the joined path, which the loop uses.
\<close>

definition root_dir :: "('r, 'dp) env \<Rightarrow> string" where
  "root_dir env =
     (case environ env ''BEEP_PROCESSING_DIR'' of None \<Rightarrow> ''/'' | Some r \<Rightarrow> r)"

definition prepare_processed_dir :: "('r, 'dp) env \<Rightarrow> string \<Rightarrow> ('r, 'dp, string) run" where
  "prepare_processed_dir env processed_dir w =
     (let pd = join (root_dir env) processed_dir
      in if \<not> os_path_exists pd w
         then (case os_makedirs env pd w of
                 (Inl e, w1) \<Rightarrow> (Inl e, w1)
               | (Inr _, w1) \<Rightarrow> (Inr pd, w1))
         else (Inr pd, w))"

text \<open>
  Line 67: \<^verbatim>\<open>logger.info("run_id=%s structuring=%s", str(run_id), filename, extra=s)\<close>.
  The module binds no name \<^verbatim>\<open>s\<close>, neither as a local nor as a global, and it is no
  builtin: evaluating the arguments raises \<^verbatim>\<open>NameError\<close> before the logger is called.
\<close>

definition logger_info_structuring :: "'r \<Rightarrow> string \<Rightarrow> ('r, 'dp, unit) run" where
  "logger_info_structuring rid fname w = (Inl (NameError ''s''), w)"

text \<open>Lines 76 to 80: where the structured run of a file goes.\<close>

definition structured_run_loc :: "('r, 'dp) env \<Rightarrow> string \<Rightarrow> string \<Rightarrow> string" where
  "structured_run_loc env processed_dir fname =
     (let new_filename = fst (splitext (basename fname));
          new_filename = new_filename @ ''.json'';
          new_filename = add_suffix_to_filename new_filename ''_structure''
      in abspath (getcwd env) (join processed_dir new_filename))"

text \<open>Lines 68 to 90: one entry of the manifest, after the logging line.\<close>

definition structure_entry ::
  "('r, 'dp) env \<Rightarrow> string \<Rightarrow> string \<times> string \<times> 'r \<Rightarrow> 'r output_json \<Rightarrow>
     ('r, 'dp, 'r output_json) run" where
  "structure_entry env processed_dir entry acc w =
     (case entry of (fname, validity, rid) \<Rightarrow>
        if validity = ''valid'' then
          (case auto_load env fname w of
             (Inl e, w1) \<Rightarrow> (Inl e, w1)
           | (Inr dp, w1) \<Rightarrow>
               (case call_structure env dp w1 of
                  (Inl e, w2) \<Rightarrow> (Inl e, w2)
                | (Inr dp', w2) \<Rightarrow>
                    (let loc = structured_run_loc env processed_dir fname
                     in case dumpfn env dp' loc w2 of
                          (Inl e, w3) \<Rightarrow> (Inl e, w3)
                        | (Inr _, w3) \<Rightarrow>
                            (Inr (acc\<lparr>file_list := file_list acc @ [loc],
                                      run_list := run_list acc @ [rid],
                                      result_list := result_list acc @ [''success''],
                                      message_list := message_list acc @
                                        [\<lparr>comment = '''', error = ''''\<rparr>]\<rparr>),
                             w3))))
        else (Inr (acc\<lparr>invalid_file_list := invalid_file_list acc @ [fname]\<rparr>), w))"

text \<open>Lines 67 to 90: the body of the loop.\<close>

definition loop_body ::
  "('r, 'dp) env \<Rightarrow> string \<Rightarrow> string \<times> string \<times> 'r \<Rightarrow> 'r output_json \<Rightarrow>
     ('r, 'dp, 'r output_json) run" where
  "loop_body env processed_dir entry acc w =
     (case entry of (fname, validity, rid) \<Rightarrow>
        (case logger_info_structuring rid fname w of
           (Inl e, w1) \<Rightarrow> (Inl e, w1)
         | (Inr _, w1) \<Rightarrow> structure_entry env processed_dir entry acc w1))"

text \<open>
  A \<^verbatim>\<open>for\<close> loop whose body may raise: the first exception ends the loop and is the
  outcome; nothing in the module catches one.
\<close>

fun for_each ::
  "('a \<Rightarrow> 's \<Rightarrow> 'w \<Rightarrow> (exn + 's) \<times> 'w) \<Rightarrow> 'a list \<Rightarrow> 's \<Rightarrow> 'w \<Rightarrow> (exn + 's) \<times> 'w" where
  "for_each body [] acc w = (Inr acc, w)"
| "for_each body (x # xs) acc w =
     (case body x acc w of
        (Inl e, w1) \<Rightarrow> (Inl e, w1)
      | (Inr acc1, w1) \<Rightarrow> for_each body xs acc1 w1)"

text \<open>\<^verbatim>\<open>zip\<close> of three lists stops with the shortest.\<close>

definition zip3 :: "'a list \<Rightarrow> 'b list \<Rightarrow> 'c list \<Rightarrow> ('a \<times> 'b \<times> 'c) list" where
  "zip3 xs ys zs = zip xs (zip ys zs)"

definition empty_lists :: "'r output_json" where
  "empty_lists =
     \<lparr>file_list = [], run_list = [], result_list = [], message_list = [],
      invalid_file_list = []\<rparr>"

text \<open>Python's \<^verbatim>\<open>xs[0]\<close>.\<close>

definition index0 :: "'a list \<Rightarrow> exn + 'a" where
  "index0 xs = (case xs of [] \<Rightarrow> Inl IndexError | x # _ \<Rightarrow> Inr x)"

text \<open>
  Lines 100 to 114. The warning text is not an f-string, so the braces are logged as
  they stand. The function returns \<^verbatim>\<open>json.dumps(output_json)\<close>; the model returns
  the object that is serialised. The \<^verbatim>\<open>WorkflowOutputs\<close> object of line 48 is only
  used here; its construction is taken to succeed and to do nothing.
\<close>

definition size_warning :: string where
  "size_warning = ''{file_list_size} files being validated, should be 1''"

definition workflow_outputs ::
  "('r, 'dp) env \<Rightarrow> 'r output_json \<Rightarrow> ('r, 'dp, 'r output_json) run" where
  "workflow_outputs env oj w =
     (let file_list_size = length (file_list oj);
          w1 = (if file_list_size > 1 \<or> file_list_size = 0
                then logger_warning size_warning w else w)
      in case index0 (file_list oj) of
           Inl e \<Rightarrow> (Inl e, w1)
         | Inr f \<Rightarrow>
             (case index0 (run_list oj) of
                Inl e \<Rightarrow> (Inl e, w1)
              | Inr r \<Rightarrow>
                  (case index0 (result_list oj) of
                     Inl e \<Rightarrow> (Inl e, w1)
                   | Inr res \<Rightarrow>
                       (case put_workflow_outputs env
                               \<lparr>od_filename = f, od_run_id = r, od_result = res\<rparr>
                               ''structuring'' w1 of
                          (Inl e, w2) \<Rightarrow> (Inl e, w2)
                        | (Inr _, w2) \<Rightarrow> (Inr oj, w2)))))"

definition default_processed_dir :: string where
  "default_processed_dir = ''data-share/structure/''"

definition process_file_list_from_json ::
  "('r, 'dp) env \<Rightarrow> string \<Rightarrow> string \<Rightarrow> ('r, 'dp, 'r output_json) run" where
  "process_file_list_from_json env file_list_json processed_dir w =
     (case load_file_list_data env file_list_json of
        Inl e \<Rightarrow> (Inl e, w)
      | Inr file_list_data \<Rightarrow>
          (case prepare_processed_dir env processed_dir w of
             (Inl e, w1) \<Rightarrow> (Inl e, w1)
           | (Inr pd, w1) \<Rightarrow>
               (case in_file_list file_list_data of
                  None \<Rightarrow> (Inl (KeyError ''file_list''), w1)
                | Some files \<Rightarrow>
                    (case in_validity file_list_data of
                       None \<Rightarrow> (Inl (KeyError ''validity''), w1)
                     | Some validities \<Rightarrow>
                         (case in_run_list file_list_data of
                            None \<Rightarrow> (Inl (KeyError ''run_list''), w1)
                          | Some run_ids \<Rightarrow>
                              (case for_each (loop_body env pd)
                                      (zip3 files validities run_ids) empty_lists w1 of
                                 (Inl e, w2) \<Rightarrow> (Inl e, w2)
                               | (Inr oj, w2) \<Rightarrow> workflow_outputs env oj w2))))))"

subsection \<open>The dispatch table, as the specification words it\<close>

text \<open>
  The specification describes dispatch as an ordered sequence of bindings of a pattern
  to a handler, walked from the front. This is that sequence, in the order of the
  conditions of \<^verbatim>\<open>auto_load\<close>; the theorems below relate the two.
\<close>

definition registry :: "('r, 'dp) env \<Rightarrow> (regex \<times> handler) list" where
  "registry env =
     [(file_pattern (ARBIN_CONFIG env), ArbinDatapath),
      (file_pattern (FastCharge_CONFIG env), ArbinDatapath),
      (file_pattern (MACCOR_CONFIG env), MaccorDatapath),
      (file_pattern (xTesladiag_CONFIG env), MaccorDatapath),
      (file_pattern (INDIGO_CONFIG env), IndigoDatapath),
      (file_pattern (BIOLOGIC_CONFIG env), BiologicDatapath),
      (file_pattern (NEWARE_CONFIG env), NewareDatapath)]"

abbreviation unrecognized :: "string \<Rightarrow> exn" where
  "unrecognized fname \<equiv> ValueError (fname @ '' does not match any known file pattern'')"

subsection \<open>A concrete environment\<close>

text \<open>
  An environment to run the module in: six literal patterns, of which those of ARBIN
  (\<^verbatim>\<open>ARBIN\<close>), MACCOR (\<^verbatim>\<open>AR\<close>) and INDIGO (\<^verbatim>\<open>A\<close>) overlap, and the
  pattern \<^verbatim>\<open>.*neware\<close> for NEWARE, which also matches a path; collaborators that
  never fail; no \<^verbatim>\<open>BEEP_PROCESSING_DIR\<close>; an empty file system. A datapath object
  is the class and the file it was made from, with a flag set by \<^verbatim>\<open>structure()\<close>.
\<close>

definition literal :: "string \<Rightarrow> regex" where
  "literal s = foldr (\<lambda>c. Cat (Class (\<lambda>x. x = c))) s Empty"

definition dot_star :: regex where
  "dot_star = Rep (Class (\<lambda>c. c \<noteq> CHR 0x0A))"

definition demo_env ::
  "nat file_list_data \<Rightarrow> (nat, handler \<times> string \<times> bool) env" where
  "demo_env d =
     \<lparr>loadfn = (\<lambda>_. Inr d),
      json_loads = (\<lambda>_. Inr d),
      environ = Map.empty,
      getcwd = ''/home/beep'',
      makedirs_error = (\<lambda>_. None),
      FastCharge_CONFIG = \<lparr>file_pattern = literal ''FastCharge''\<rparr>,
      xTesladiag_CONFIG = \<lparr>file_pattern = literal ''xTesladiag''\<rparr>,
      ARBIN_CONFIG = \<lparr>file_pattern = literal ''ARBIN''\<rparr>,
      MACCOR_CONFIG = \<lparr>file_pattern = literal ''AR''\<rparr>,
      INDIGO_CONFIG = \<lparr>file_pattern = literal ''A''\<rparr>,
      BIOLOGIC_CONFIG = \<lparr>file_pattern = literal ''BioLogic''\<rparr>,
      NEWARE_CONFIG = \<lparr>file_pattern = Cat dot_star (literal ''neware'')\<rparr>,
      from_file = (\<lambda>h f. Inr (h, f, False)),
      dp_structure = (\<lambda>(h, f, _). Inr (h, f, True)),
      dumpfn_error = (\<lambda>_ _. None),
      put_workflow_outputs_error = (\<lambda>_ _. None)\<rparr>"

definition demo_world :: "(nat, handler \<times> string \<times> bool) world" where
  "demo_world = \<lparr>fs = {}, trace = []\<rparr>"

definition manifest :: "string list \<Rightarrow> string list \<Rightarrow> 'r list \<Rightarrow> 'r file_list_data" where
  "manifest files validities run_ids =
     \<lparr>in_file_list = Some files, in_validity = Some validities, in_run_list = Some run_ids\<rparr>"

section \<open>Properties\<close>

subsection \<open>What \<^verbatim>\<open>re.match\<close> decides\<close>

inductive_simps accepts_Fail [simp]: "accepts Fail w"
inductive_simps accepts_Empty [simp]: "accepts Empty w"
inductive_simps accepts_Class [simp]: "accepts (Class P) w"
inductive_simps accepts_Cat: "accepts (Cat r t) w"
inductive_simps accepts_Or [simp]: "accepts (Or r t) w"

lemma accepts_Rep_Cons_D:
  "accepts q w \<Longrightarrow> q = Rep r \<Longrightarrow> w = c # s \<Longrightarrow>
     \<exists>u v. s = u @ v \<and> accepts r (c # u) \<and> accepts (Rep r) v"
proof (induction q w arbitrary: s rule: accepts.induct)
  case (acc_RepS r' u v)
  show ?case
  proof (cases u)
    case Nil
    with acc_RepS show ?thesis by simp
  next
    case (Cons a u')
    with acc_RepS.prems acc_RepS.hyps show ?thesis by auto
  qed
qed simp_all

lemma accepts_Rep_Cons:
  "accepts (Rep r) (c # s) \<longleftrightarrow> (\<exists>u v. s = u @ v \<and> accepts r (c # u) \<and> accepts (Rep r) v)"
proof
  assume "accepts (Rep r) (c # s)"
  then show "\<exists>u v. s = u @ v \<and> accepts r (c # u) \<and> accepts (Rep r) v"
    using accepts_Rep_Cons_D by blast
next
  assume "\<exists>u v. s = u @ v \<and> accepts r (c # u) \<and> accepts (Rep r) v"
  then obtain u v where "s = u @ v" "accepts r (c # u)" "accepts (Rep r) v" by blast
  then show "accepts (Rep r) (c # s)"
    using acc_RepS [of r "c # u" v] by simp
qed

lemma nullable_accepts: "nullable r \<longleftrightarrow> accepts r []"
  by (induction r) (auto simp: accepts_Cat intro: acc_Rep0)

lemma step_accepts: "accepts (step c r) w \<longleftrightarrow> accepts r (c # w)"
proof (induction r arbitrary: w)
  case (Cat r t)
  then show ?case
    by (auto simp: accepts_Cat nullable_accepts Cons_eq_append_conv)
next
  case (Rep r)
  then show ?case
    by (auto simp: accepts_Cat accepts_Rep_Cons)
qed auto

lemma re_match_iff: "re_match r w \<longleftrightarrow> (\<exists>n. accepts r (take n w))"
proof (induction w arbitrary: r)
  case Nil
  then show ?case by (simp add: nullable_accepts)
next
  case (Cons c cs)
  have "(\<exists>n. accepts r (take n (c # cs))) \<longleftrightarrow> accepts r [] \<or> (\<exists>m. accepts r (c # take m cs))"
  proof
    assume "\<exists>n. accepts r (take n (c # cs))"
    then obtain n where n: "accepts r (take n (c # cs))" ..
    then show "accepts r [] \<or> (\<exists>m. accepts r (c # take m cs))"
      by (cases n) auto
  next
    assume "accepts r [] \<or> (\<exists>m. accepts r (c # take m cs))"
    then show "\<exists>n. accepts r (take n (c # cs))"
    proof
      assume "accepts r []"
      then have "accepts r (take 0 (c # cs))" by simp
      then show ?thesis ..
    next
      assume "\<exists>m. accepts r (c # take m cs)"
      then obtain m where "accepts r (take (Suc m) (c # cs))" by auto
      then show ?thesis ..
    qed
  qed
  with Cons show ?case by (simp add: nullable_accepts step_accepts)
qed

subsection \<open>Loops, the output directory and the concrete environment\<close>

lemma for_each_raises:
  "body x acc w = (Inl e, w1) \<Longrightarrow> for_each body (x # xs) acc w = (Inl e, w1)"
  by simp

lemma for_each_continues:
  "body x acc w = (Inr acc1, w1) \<Longrightarrow> for_each body (x # xs) acc w = for_each body xs acc1 w1"
  by simp

lemma loop_body_raises:
  "loop_body env pd entry acc w = (Inl (NameError ''s''), w)"
  by (simp add: loop_body_def logger_info_structuring_def split: prod.splits)

lemma for_each_loop_body:
  "entries \<noteq> [] \<Longrightarrow> for_each (loop_body env pd) entries acc w = (Inl (NameError ''s''), w)"
  by (cases entries) (simp_all add: loop_body_raises)

lemma zip3_eq_Nil: "zip3 xs ys zs = [] \<longleftrightarrow> xs = [] \<or> ys = [] \<or> zs = []"
  by (cases xs; cases ys; cases zs) (simp_all add: zip3_def)

lemma prepare_processed_dir_Inr:
  assumes "prepare_processed_dir env processed_dir w = (Inr pd, w1)"
  shows "pd = join (root_dir env) processed_dir"
    and "os_path_exists pd w \<Longrightarrow> w1 = w"
    and "\<not> os_path_exists pd w \<Longrightarrow> w1 = emit (Makedirs pd) (w\<lparr>fs := insert pd (fs w)\<rparr>)"
  using assms
  by (auto simp: prepare_processed_dir_def Let_def os_makedirs_def
      split: if_splits option.splits)

lemma trace_emit: "trace (emit ev w) = trace w @ [ev]"
  by (simp add: emit_def)

lemma demo_prepare:
  "prepare_processed_dir (demo_env d) default_processed_dir demo_world
     = (Inr ''/data-share/structure/'',
        \<lparr>fs = {''/data-share/structure/''}, trace = [Makedirs ''/data-share/structure/'']\<rparr>)"
  by (simp add: prepare_processed_dir_def Let_def root_dir_def join_def startswith_def
      endswith_def default_processed_dir_def os_path_exists_def os_makedirs_def emit_def
      demo_env_def demo_world_def)

lemma demo_load: "load_file_list_data (demo_env d) name = Inr d"
  by (simp add: load_file_list_data_def demo_env_def)

subsection \<open>The claims\<close>

text \<open>
  C1. For a manifest that loads, has its three keys and has at least one entry (a
  position present in all three sequences, which the loop zips: in particular every
  manifest whose sequences have the same length, not zero), and once the output
  directory is in place, \<^verbatim>\<open>process_file_list_from_json\<close> raises
  \<^verbatim>\<open>NameError\<close> for the name \<^verbatim>\<open>s\<close> at the logging line of the first entry,
  whatever its validity. The world it leaves is the one left by the preparation of the
  directory, whose only possible event is the creation of that directory: no file was
  dispatched, structured or dumped, nothing went to the workflow sink, and no output
  manifest is returned.
\<close>

theorem name_error_at_first_entry:
  assumes "load_file_list_data env file_list_json = Inr d"
    and "in_file_list d = Some files"
    and "in_validity d = Some validities"
    and "in_run_list d = Some run_ids"
    and "files \<noteq> []" and "validities \<noteq> []" and "run_ids \<noteq> []"
    and "prepare_processed_dir env processed_dir w = (Inr pd, w1)"
  shows "process_file_list_from_json env file_list_json processed_dir w
           = (Inl (NameError ''s''), w1) \<and>
         trace w1 = trace w @
           (if os_path_exists (join (root_dir env) processed_dir) w then []
            else [Makedirs (join (root_dir env) processed_dir)])"
proof -
  have "zip3 files validities run_ids \<noteq> []"
    using assms(5-7) by (simp add: zip3_eq_Nil)
  then have "for_each (loop_body env pd) (zip3 files validities run_ids) empty_lists w1
               = (Inl (NameError ''s''), w1)"
    by (rule for_each_loop_body)
  then have run: "process_file_list_from_json env file_list_json processed_dir w
                    = (Inl (NameError ''s''), w1)"
    using assms(1-4,8) by (simp add: process_file_list_from_json_def)
  have pd: "pd = join (root_dir env) processed_dir"
    using assms(8) by (rule prepare_processed_dir_Inr(1))
  have "trace w1 = trace w @ (if os_path_exists pd w then [] else [Makedirs pd])"
    using prepare_processed_dir_Inr(2,3) [OF assms(8)]
    by (cases "os_path_exists pd w") (simp_all add: trace_emit)
  with run pd show ?thesis by simp
qed

theorem name_error_at_first_entry_witness:
  "process_file_list_from_json (demo_env (manifest [''ARBIN_1.csv''] [''valid''] [1]))
       ''manifest'' default_processed_dir demo_world
     = (Inl (NameError ''s''),
        \<lparr>fs = {''/data-share/structure/''}, trace = [Makedirs ''/data-share/structure/'']\<rparr>)"
  using name_error_at_first_entry
    [OF demo_load, of "manifest [''ARBIN_1.csv''] [''valid''] [1]"
       "[''ARBIN_1.csv'']" "[''valid'']" "[1]", OF _ _ _ _ _ _ demo_prepare]
  by (simp add: manifest_def)

lemma re_match_append:
  assumes "re_match r w"
  shows "re_match r (w @ v)"
proof -
  from assms obtain n where "accepts r (take n w)"
    by (auto simp: re_match_iff)
  moreover have "take (min n (length w)) (w @ v) = take n w"
    by (cases "n \<le> length w") simp_all
  ultimately have "accepts r (take (min n (length w)) (w @ v))"
    by simp
  then show ?thesis
    unfolding re_match_iff ..
qed

lemma auto_load_find:
  "auto_load env fname w =
     (case find (\<lambda>b. re_match (fst b) fname) (registry env) of
        None \<Rightarrow> (Inl (unrecognized fname), w)
      | Some b \<Rightarrow> call_from_file env (snd b) fname w)"
  by (simp add: auto_load_def registry_def)

lemma length_registry: "length (registry env) = 7"
  by (simp add: registry_def)

lemma demo_registry:
  "registry (demo_env d) =
     [(literal ''ARBIN'', ArbinDatapath), (literal ''FastCharge'', ArbinDatapath),
      (literal ''AR'', MaccorDatapath), (literal ''xTesladiag'', MaccorDatapath),
      (literal ''A'', IndigoDatapath), (literal ''BioLogic'', BiologicDatapath),
      (Cat dot_star (literal ''neware''), NewareDatapath)]"
  by (simp add: registry_def demo_env_def)

lemma demo_from_file: "from_file (demo_env d) h f = Inr (h, f, False)"
  by (simp add: demo_env_def)

text \<open>
  C8. \<^verbatim>\<open>auto_load\<close> walks the bindings in the order of \<open>registry\<close> (ARBIN and
  FastCharge to the Arbin class, MACCOR and xTesladiag to the Maccor class, then Indigo,
  Biologic and Neware) and constructs the handler of the first binding whose pattern
  matches: when the binding at position \<open>i\<close> matches and none before it does, its
  handler is the one called, whatever later bindings match as well.
\<close>

theorem first_matching_binding_wins:
  assumes "i < length (registry env)"
    and "re_match (fst (registry env ! i)) fname"
    and "\<forall>k<i. \<not> re_match (fst (registry env ! k)) fname"
  shows "auto_load env fname w = call_from_file env (snd (registry env ! i)) fname w"
proof -
  have "find (\<lambda>b. re_match (fst b) fname) (registry env) = Some (registry env ! i)"
    unfolding find_Some_iff using assms by blast
  then show ?thesis by (simp add: auto_load_find)
qed

theorem first_matching_binding_wins_witness:
  "re_match (literal ''AR'') ''AR_2.csv'' \<and> re_match (literal ''A'') ''AR_2.csv'' \<and>
   auto_load (demo_env (manifest [] [] [])) ''AR_2.csv'' demo_world
     = (Inr (MaccorDatapath, ''AR_2.csv'', False),
        \<lparr>fs = {}, trace = [FromFile MaccorDatapath ''AR_2.csv'']\<rparr>)"
proof -
  let ?env = "demo_env (manifest [] [] [])"
  have earlier: "\<forall>k<2. \<not> re_match (fst (registry ?env ! k)) ''AR_2.csv''"
    by (auto simp: demo_registry literal_def less_Suc_eq numeral_2_eq_2)
  have here: "re_match (fst (registry ?env ! 2)) ''AR_2.csv''"
    by (simp add: demo_registry literal_def dot_star_def)
  have "auto_load ?env ''AR_2.csv'' demo_world
          = call_from_file ?env (snd (registry ?env ! 2)) ''AR_2.csv'' demo_world"
    using first_matching_binding_wins [of 2 ?env "''AR_2.csv''" demo_world] here earlier
    by (simp add: length_registry)
  then show ?thesis
    by (simp add: demo_registry call_from_file_def emit_def demo_from_file demo_world_def
        literal_def)
qed

lemma auto_load_unrecognized:
  assumes "\<forall>b\<in>set (registry env). \<not> re_match (fst b) fname"
  shows "auto_load env fname w = (Inl (unrecognized fname), w)"
proof -
  have "find (\<lambda>b. re_match (fst b) fname) (registry env) = None"
    using assms by (auto simp: find_None_iff)
  then show ?thesis by (simp add: auto_load_find)
qed

lemma structure_entry_unrecognized:
  assumes "\<forall>b\<in>set (registry env). \<not> re_match (fst b) fname"
  shows "structure_entry env pd (fname, ''valid'', rid) acc w = (Inl (unrecognized fname), w)"
  by (simp add: structure_entry_def auto_load_unrecognized [OF assms])

lemma demo_process_entries:
  assumes "files \<noteq> []" and "validities \<noteq> []" and "run_ids \<noteq> []"
  shows "process_file_list_from_json (demo_env (manifest files validities run_ids))
           name default_processed_dir demo_world
         = (Inl (NameError ''s''),
            \<lparr>fs = {''/data-share/structure/''},
               trace = [Makedirs ''/data-share/structure/'']\<rparr>)"
proof -
  have "zip3 files validities run_ids \<noteq> []"
    using assms by (simp add: zip3_eq_Nil)
  then show ?thesis
    by (simp add: process_file_list_from_json_def demo_load demo_prepare manifest_def
        for_each_loop_body)
qed

lemma workflow_outputs_empty:
  "file_list oj = [] \<Longrightarrow>
     workflow_outputs env oj w = (Inl IndexError, logger_warning size_warning w)"
  by (simp add: workflow_outputs_def index0_def)

lemma demo_process_no_entries:
  assumes "files = [] \<or> validities = [] \<or> run_ids = []"
  shows "process_file_list_from_json (demo_env (manifest files validities run_ids))
           name default_processed_dir demo_world
         = (Inl IndexError,
            \<lparr>fs = {''/data-share/structure/''},
               trace = [Makedirs ''/data-share/structure/'', LogWarning size_warning]\<rparr>)"
proof -
  have "zip3 files validities run_ids = []"
    using assms by (simp add: zip3_eq_Nil)
  then show ?thesis
    by (simp add: process_file_list_from_json_def demo_load demo_prepare manifest_def
        workflow_outputs_empty empty_lists_def logger_warning_def emit_def)
qed

text \<open>
  C2, as amended. When no registered pattern matches the name of a valid entry,
  \<^verbatim>\<open>auto_load\<close> raises \<^verbatim>\<open>ValueError\<close> (\<^verbatim>\<open>... does not match any known file pattern\<close>)
  for that file and touches nothing. Nothing catches it: the code of an entry (lines 68
  to 90) ends with that exception, and a loop over it stops there, with the world as it
  was and the entries after it untouched.
\<close>

theorem unrecognized_entry_ends_the_loop:
  assumes "\<forall>b\<in>set (registry env). \<not> re_match (fst b) fname"
  shows "auto_load env fname w
           = (Inl (ValueError (fname @ '' does not match any known file pattern'')), w) \<and>
         for_each (structure_entry env pd) ((fname, ''valid'', rid) # rest) acc w
           = (Inl (ValueError (fname @ '' does not match any known file pattern'')), w)"
  using auto_load_unrecognized [OF assms] structure_entry_unrecognized [OF assms]
  by simp

lemma demo_unknown:
  "\<forall>b\<in>set (registry (demo_env d)). \<not> re_match (fst b) ''unknown.txt''"
  by (simp add: demo_registry literal_def dot_star_def)

theorem unrecognized_entry_ends_the_loop_witness:
  "auto_load (demo_env (manifest [] [] [])) ''unknown.txt'' demo_world
     = (Inl (ValueError ''unknown.txt does not match any known file pattern''), demo_world) \<and>
   for_each (structure_entry (demo_env (manifest [] [] [])) ''/data-share/structure/'')
       [(''unknown.txt'', ''valid'', 1), (''ARBIN_2.csv'', ''valid'', 2)] empty_lists demo_world
     = (Inl (ValueError ''unknown.txt does not match any known file pattern''), demo_world)"
  using unrecognized_entry_ends_the_loop [OF demo_unknown,
      of "manifest [] [] []" demo_world "''/data-share/structure/''" 1
         "[(''ARBIN_2.csv'', ''valid'', 2)]" empty_lists]
  by simp

text \<open>
  C2 as stated fails. For the batch of \<^verbatim>\<open>unknown.txt\<close> and \<^verbatim>\<open>ARBIN_2.csv\<close>, both
  valid, the code of the first entry ends with the \<^verbatim>\<open>ValueError\<close> instead of
  recording a failure and going on, and the call ends with an exception after creating
  the output directory only: \<^verbatim>\<open>ARBIN_2.csv\<close>, which the ARBIN pattern matches, is
  never dispatched.
\<close>

theorem unrecognized_entry_counterexample:
  "structure_entry (demo_env (manifest [] [] [])) ''/data-share/structure/''
       (''unknown.txt'', ''valid'', 1) empty_lists demo_world
     = (Inl (ValueError ''unknown.txt does not match any known file pattern''), demo_world) \<and>
   process_file_list_from_json
       (demo_env (manifest [''unknown.txt'', ''ARBIN_2.csv''] [''valid'', ''valid''] [1, 2]))
       ''manifest'' default_processed_dir demo_world
     = (Inl (NameError ''s''),
        \<lparr>fs = {''/data-share/structure/''}, trace = [Makedirs ''/data-share/structure/'']\<rparr>)"
  by (simp add: structure_entry_unrecognized [OF demo_unknown] demo_process_entries)

lemma auto_load_prefix:
  "auto_load env fname w =
     (case find (\<lambda>b. \<exists>n. accepts (fst b) (take n fname)) (registry env) of
        None \<Rightarrow> (Inl (unrecognized fname), w)
      | Some b \<Rightarrow> call_from_file env (snd b) fname w)"
  by (simp add: auto_load_find re_match_iff)

text \<open>
  C10, as amended. Matching is \<^verbatim>\<open>re.match\<close> on the string \<^verbatim>\<open>auto_load\<close> is given:
  the handler is the one of the first binding whose pattern accepts a prefix
  (\<open>take n\<close>) of that string. The loop hands over the entry of the manifest as it
  stands (line 71), so a path is matched from its first character and no base name is
  taken first: a valid entry none of whose prefixes is accepted ends with the
  \<^verbatim>\<open>ValueError\<close>, whatever its base name is.
\<close>

theorem dispatch_matches_prefix_of_entry:
  "auto_load env fname w =
     (case find (\<lambda>b. \<exists>n. accepts (fst b) (take n fname)) (registry env) of
        None \<Rightarrow> (Inl (ValueError (fname @ '' does not match any known file pattern'')), w)
      | Some b \<Rightarrow> call_from_file env (snd b) fname w) \<and>
   ((\<forall>b\<in>set (registry env). \<forall>n. \<not> accepts (fst b) (take n fname)) \<longrightarrow>
      structure_entry env pd (fname, ''valid'', rid) acc w
        = (Inl (ValueError (fname @ '' does not match any known file pattern'')), w))"
proof -
  have "structure_entry env pd (fname, ''valid'', rid) acc w = (Inl (unrecognized fname), w)"
    if "\<forall>b\<in>set (registry env). \<forall>n. \<not> accepts (fst b) (take n fname)"
    using that by (intro structure_entry_unrecognized) (simp add: re_match_iff)
  then show ?thesis
    by (simp add: auto_load_prefix)
qed

lemma demo_path_entry:
  "\<forall>b\<in>set (registry (demo_env d)). \<not> re_match (fst b) ''/raw/ARBIN_1.csv''"
  by (simp add: demo_registry literal_def dot_star_def)

theorem dispatch_matches_prefix_of_entry_witness:
  "structure_entry (demo_env (manifest [] [] [])) ''/data-share/structure/''
       (''/raw/ARBIN_1.csv'', ''valid'', 1) empty_lists demo_world
     = (Inl (ValueError ''/raw/ARBIN_1.csv does not match any known file pattern''),
        demo_world)"
  using dispatch_matches_prefix_of_entry
      [of "demo_env (manifest [] [] [])" "''/raw/ARBIN_1.csv''" demo_world
          "''/data-share/structure/''" 1 empty_lists]
    demo_path_entry [of "manifest [] [] []"]
  by (simp add: re_match_iff)

lemma demo_arbin_entry:
  "auto_load (demo_env d) ''ARBIN_1.csv'' w
     = (Inr (ArbinDatapath, ''ARBIN_1.csv'', False), emit (FromFile ArbinDatapath ''ARBIN_1.csv'') w)"
  by (simp add: auto_load_find demo_registry literal_def call_from_file_def demo_from_file)

text \<open>
  C10 as stated fails. The entries \<^verbatim>\<open>ARBIN_1.csv\<close> and \<^verbatim>\<open>/raw/ARBIN_1.csv\<close> name the
  same file, yet with the pattern \<^verbatim>\<open>ARBIN\<close> the first is dispatched to the Arbin
  class and the second is rejected: the match is against the full path string.
\<close>

theorem match_on_file_name_counterexample:
  "basename ''/raw/ARBIN_1.csv'' = ''ARBIN_1.csv'' \<and>
   auto_load (demo_env (manifest [] [] [])) ''ARBIN_1.csv'' demo_world
     = (Inr (ArbinDatapath, ''ARBIN_1.csv'', False),
        \<lparr>fs = {}, trace = [FromFile ArbinDatapath ''ARBIN_1.csv'']\<rparr>) \<and>
   auto_load (demo_env (manifest [] [] [])) ''/raw/ARBIN_1.csv'' demo_world
     = (Inl (ValueError ''/raw/ARBIN_1.csv does not match any known file pattern''),
        demo_world)"
  by (simp add: basename_def rfind_def demo_arbin_entry emit_def demo_world_def
      auto_load_unrecognized [OF demo_path_entry])

lemma length_zip3: "length (zip3 xs ys zs) = min (length xs) (min (length ys) (length zs))"
  by (simp add: zip3_def)

lemma zip3_nth:
  "zip3 xs ys zs =
     map (\<lambda>i. (xs ! i, ys ! i, zs ! i)) [0..<min (length xs) (min (length ys) (length zs))]"
  by (rule nth_equalityI) (simp_all add: zip3_def)

lemma zip3_take:
  assumes "n = min (length xs) (min (length ys) (length zs))"
  shows "zip3 (take n xs) (take n ys) (take n zs) = zip3 xs ys zs"
proof -
  have "zip3 (take n xs) (take n ys) (take n zs) = take n (zip3 xs ys zs)"
    by (simp add: zip3_def take_zip)
  also have "\<dots> = zip3 xs ys zs"
    using assms by (simp add: length_zip3)
  finally show ?thesis .
qed

lemma load_file_list_data_replaced:
  "load_file_list_data (env\<lparr>loadfn := \<lambda>_. Inr d, json_loads := \<lambda>_. Inr d\<rparr>) name = Inr d"
  by (simp add: load_file_list_data_def)

lemma collaborators_loaders:
  "root_dir (env\<lparr>loadfn := l, json_loads := j\<rparr>) = root_dir env"
  "os_makedirs (env\<lparr>loadfn := l, json_loads := j\<rparr>) = os_makedirs env"
  "call_from_file (env\<lparr>loadfn := l, json_loads := j\<rparr>) = call_from_file env"
  "call_structure (env\<lparr>loadfn := l, json_loads := j\<rparr>) = call_structure env"
  "dumpfn (env\<lparr>loadfn := l, json_loads := j\<rparr>) = dumpfn env"
  "structured_run_loc (env\<lparr>loadfn := l, json_loads := j\<rparr>) = structured_run_loc env"
  "put_workflow_outputs (env\<lparr>loadfn := l, json_loads := j\<rparr>) = put_workflow_outputs env"
  by (auto simp: fun_eq_iff root_dir_def os_makedirs_def call_from_file_def call_structure_def
      dumpfn_def structured_run_loc_def put_workflow_outputs_def)

lemma prepare_processed_dir_loaders:
  "prepare_processed_dir (env\<lparr>loadfn := l, json_loads := j\<rparr>) = prepare_processed_dir env"
  unfolding fun_eq_iff prepare_processed_dir_def collaborators_loaders by simp

lemma auto_load_loaders:
  "auto_load (env\<lparr>loadfn := l, json_loads := j\<rparr>) = auto_load env"
  unfolding fun_eq_iff auto_load_def collaborators_loaders by simp

lemma structure_entry_loaders:
  "structure_entry (env\<lparr>loadfn := l, json_loads := j\<rparr>) = structure_entry env"
  unfolding fun_eq_iff structure_entry_def auto_load_loaders collaborators_loaders by simp

lemma loop_body_loaders:
  "loop_body (env\<lparr>loadfn := l, json_loads := j\<rparr>) = loop_body env"
  unfolding fun_eq_iff loop_body_def structure_entry_loaders by simp

lemma workflow_outputs_loaders:
  "workflow_outputs (env\<lparr>loadfn := l, json_loads := j\<rparr>) = workflow_outputs env"
  unfolding fun_eq_iff workflow_outputs_def collaborators_loaders by simp

lemma process_loaded:
  assumes "load_file_list_data env file_list_json = Inr d"
    and "in_file_list d = Some files"
    and "in_validity d = Some validities"
    and "in_run_list d = Some run_ids"
  shows "process_file_list_from_json env file_list_json processed_dir w =
           (case prepare_processed_dir env processed_dir w of
              (Inl e, w1) \<Rightarrow> (Inl e, w1)
            | (Inr pd, w1) \<Rightarrow>
                (case for_each (loop_body env pd) (zip3 files validities run_ids)
                        empty_lists w1 of
                   (Inl e, w2) \<Rightarrow> (Inl e, w2)
                 | (Inr oj, w2) \<Rightarrow> workflow_outputs env oj w2))"
  using assms
  by (simp add: process_file_list_from_json_def split: prod.splits sum.splits)

text \<open>
  C3, as amended. The code never compares the lengths of the three sequences. It zips
  them, so the loop visits exactly the positions below the shortest length and ignores
  what lies beyond: a manifest whose sequences differ in length is processed exactly as
  the manifest cut to that length, with the same outcome and the same effects.
\<close>

theorem mismatched_lengths_are_truncated:
  assumes "load_file_list_data env file_list_json = Inr d"
    and "in_file_list d = Some files"
    and "in_validity d = Some validities"
    and "in_run_list d = Some run_ids"
    and "n = min (length files) (min (length validities) (length run_ids))"
  shows "zip3 files validities run_ids
           = map (\<lambda>i. (files ! i, validities ! i, run_ids ! i)) [0..<n] \<and>
         process_file_list_from_json env file_list_json processed_dir w
           = process_file_list_from_json
               (env\<lparr>loadfn := \<lambda>_. Inr (manifest (take n files) (take n validities)
                                         (take n run_ids)),
                     json_loads := \<lambda>_. Inr (manifest (take n files) (take n validities)
                                         (take n run_ids))\<rparr>)
               file_list_json processed_dir w"
proof -
  let ?d' = "manifest (take n files) (take n validities) (take n run_ids)"
  let ?env' = "env\<lparr>loadfn := \<lambda>_. Inr ?d', json_loads := \<lambda>_. Inr ?d'\<rparr>"
  have same: "zip3 (take n files) (take n validities) (take n run_ids)
                = zip3 files validities run_ids"
    using assms(5) by (rule zip3_take)
  have "process_file_list_from_json ?env' file_list_json processed_dir w =
           (case prepare_processed_dir ?env' processed_dir w of
              (Inl e, w1) \<Rightarrow> (Inl e, w1)
            | (Inr pd, w1) \<Rightarrow>
                (case for_each (loop_body ?env' pd)
                        (zip3 (take n files) (take n validities) (take n run_ids))
                        empty_lists w1 of
                   (Inl e, w2) \<Rightarrow> (Inl e, w2)
                 | (Inr oj, w2) \<Rightarrow> workflow_outputs ?env' oj w2))"
    by (rule process_loaded [OF load_file_list_data_replaced]) (simp_all add: manifest_def)
  also have "\<dots> = process_file_list_from_json env file_list_json processed_dir w"
    unfolding same prepare_processed_dir_loaders loop_body_loaders workflow_outputs_loaders
    by (rule process_loaded [OF assms(1-4), symmetric])
  finally show ?thesis
    using assms(5) by (simp add: zip3_nth)
qed

lemma demo_env_loaders:
  "(demo_env d)\<lparr>loadfn := \<lambda>_. Inr d', json_loads := \<lambda>_. Inr d'\<rparr> = demo_env d'"
  by (simp add: demo_env_def)

theorem mismatched_lengths_are_truncated_witness:
  "process_file_list_from_json
       (demo_env (manifest [''ARBIN_1.csv'', ''AR_2.csv''] [''valid''] [1, 2, 3]))
       ''manifest'' default_processed_dir demo_world
     = process_file_list_from_json (demo_env (manifest [''ARBIN_1.csv''] [''valid''] [1]))
       ''manifest'' default_processed_dir demo_world"
  using mismatched_lengths_are_truncated
      [where env = "demo_env (manifest [''ARBIN_1.csv'', ''AR_2.csv''] [''valid''] [1, 2, 3])"
         and file_list_json = "''manifest''"
         and d = "manifest [''ARBIN_1.csv'', ''AR_2.csv''] [''valid''] [1, 2, 3]"
         and files = "[''ARBIN_1.csv'', ''AR_2.csv'']" and validities = "[''valid'']"
         and run_ids = "[1, 2, 3]" and n = 1
         and processed_dir = default_processed_dir and w = demo_world]
  by (simp add: demo_load manifest_def demo_env_loaders)

text \<open>
  C3 as stated fails. With one file and no validity or run identifier, the call does
  not stop at the manifest: it creates the directory, runs the loop over no entry, logs
  the size warning and fails at the read of index 0. With two files, one validity and
  three run identifiers, it fails inside the first iteration of the loop. Neither is an
  error about the shape of the manifest.
\<close>

theorem mismatched_lengths_counterexample:
  "process_file_list_from_json (demo_env (manifest [''ARBIN_1.csv''] [] []))
       ''manifest'' default_processed_dir demo_world
     = (Inl IndexError,
        \<lparr>fs = {''/data-share/structure/''},
           trace = [Makedirs ''/data-share/structure/'',
                    LogWarning ''{file_list_size} files being validated, should be 1'']\<rparr>) \<and>
   process_file_list_from_json
       (demo_env (manifest [''ARBIN_1.csv'', ''AR_2.csv''] [''valid''] [1, 2, 3]))
       ''manifest'' default_processed_dir demo_world
     = (Inl (NameError ''s''),
        \<lparr>fs = {''/data-share/structure/''}, trace = [Makedirs ''/data-share/structure/'']\<rparr>)"
  by (simp add: demo_process_no_entries demo_process_entries size_warning_def)

subsection \<open>Paths\<close>

lemma drop_takeWhile_rev:
  "drop (length p - length (takeWhile P (rev p))) p = rev (takeWhile P (rev p))"
proof -
  have "rev p = takeWhile P (rev p) @ dropWhile P (rev p)"
    by simp
  then have p: "p = rev (dropWhile P (rev p)) @ rev (takeWhile P (rev p))"
    by (metis rev_append rev_rev_ident)
  have "length (rev (dropWhile P (rev p))) = length p - length (takeWhile P (rev p))"
    by (metis p add_diff_cancel_right' length_append length_rev)
  then show ?thesis
    by (metis p append_eq_conv_conj)
qed

lemma takeWhile_rev_less:
  assumes "c \<in> set p"
  shows "length (takeWhile (\<lambda>x. x \<noteq> c) (rev p)) < length p"
proof -
  let ?t = "takeWhile (\<lambda>x. x \<noteq> c) (rev p)"
  have "?t \<noteq> rev p"
    using assms by auto
  moreover have "?t = take (length ?t) (rev p)"
    by (rule takeWhile_eq_take)
  ultimately have "length ?t \<noteq> length (rev p)"
    by (metis take_all order_refl)
  moreover have "length ?t \<le> length (rev p)"
    by (rule length_takeWhile_le)
  ultimately show ?thesis by simp
qed

lemma basename_eq: "basename p = rev (takeWhile (\<lambda>x. x \<noteq> CHR ''/'') (rev p))"
proof (cases "CHR ''/'' \<in> set p")
  case True
  let ?k = "length (takeWhile (\<lambda>x. x \<noteq> CHR ''/'') (rev p))"
  have "?k < length p" using True by (rule takeWhile_rev_less)
  then have "nat (rfind p CHR ''/'' + 1) = length p - ?k"
    using True by (simp add: rfind_def nat_add_distrib) 
  then show ?thesis
    by (simp add: basename_def drop_takeWhile_rev)
next
  case False
  then have "\<forall>x\<in>set (rev p). x \<noteq> CHR ''/''"
    by auto
  then have "rev (takeWhile (\<lambda>x. x \<noteq> CHR ''/'') (rev p)) = rev (rev p)"
    by (simp only: takeWhile_eq_all_conv [THEN iffD2])
  moreover have "basename p = p"
    using False by (simp add: basename_def rfind_def)
  ultimately show ?thesis
    by (simp only: rev_rev_ident)
qed

lemma no_sep_basename: "CHR ''/'' \<notin> set (basename p)"
  by (auto simp: basename_eq dest: set_takeWhileD)

lemma set_fst_splitext: "set (fst (splitext p)) \<subseteq> set p"
  by (auto simp: splitext_def Let_def dest: in_set_takeD)

lemma no_sep_stem: "CHR ''/'' \<notin> set (fst (splitext (basename p)))"
  using no_sep_basename set_fst_splitext by blast

lemma rfind_json: "rfind (stem @ ''.json'') CHR ''.'' = int (length stem)"
  by (simp add: rfind_def)

lemma splitext_json:
  assumes "CHR ''/'' \<notin> set stem" and "list_ex (\<lambda>c. c \<noteq> CHR ''.'') stem"
  shows "splitext (stem @ ''.json'') = (stem, ''.json'')"
proof -
  have "rfind (stem @ ''.json'') CHR ''/'' = - 1"
    using assms(1) by (simp add: rfind_def)
  then show ?thesis
    using assms(2) by (simp add: splitext_def rfind_json)
qed

lemma add_suffix_json:
  assumes "CHR ''/'' \<notin> set stem" and "list_ex (\<lambda>c. c \<noteq> CHR ''.'') stem"
  shows "add_suffix_to_filename (stem @ ''.json'') ''_structure'' = stem @ ''_structure.json''"
  by (simp add: add_suffix_to_filename_def splitext_json [OF assms])

lemma prepare_processed_dir_present:
  assumes "os_path_exists (join (root_dir env) processed_dir) w"
  shows "prepare_processed_dir env processed_dir w = (Inr (join (root_dir env) processed_dir), w)"
  using assms by (simp add: prepare_processed_dir_def)

lemma prepare_processed_dir_exists:
  assumes "prepare_processed_dir env processed_dir w = (Inr pd, w1)"
  shows "os_path_exists pd w1"
proof (cases "os_path_exists pd w")
  case True
  with prepare_processed_dir_Inr(2) [OF assms] show ?thesis by simp
next
  case False
  with prepare_processed_dir_Inr(3) [OF assms] show ?thesis
    by (simp add: os_path_exists_def emit_def)
qed

lemma structure_entry_valid:
  assumes "auto_load env fname w = (Inr dp, w1)"
    and "call_structure env dp w1 = (Inr dp', w2)"
    and "dumpfn env dp' (structured_run_loc env pd fname) w2 = (Inr u, w3)"
  shows "structure_entry env pd (fname, ''valid'', rid) acc w
           = (Inr (acc\<lparr>file_list := file_list acc @ [structured_run_loc env pd fname],
                       run_list := run_list acc @ [rid],
                       result_list := result_list acc @ [''success''],
                       message_list := message_list acc @ [\<lparr>comment = '''', error = ''''\<rparr>]\<rparr>),
              w3)"
  using assms by (simp add: structure_entry_def)

lemma prepare_processed_dir_absent:
  assumes "\<not> os_path_exists (join (root_dir env) processed_dir) w"
  shows "prepare_processed_dir env processed_dir w =
           (case makedirs_error env (join (root_dir env) processed_dir) of
              Some e \<Rightarrow> (Inl e, emit (Makedirs (join (root_dir env) processed_dir)) w)
            | None \<Rightarrow>
                (Inr (join (root_dir env) processed_dir),
                 emit (Makedirs (join (root_dir env) processed_dir))
                   (w\<lparr>fs := insert (join (root_dir env) processed_dir) (fs w)\<rparr>)))"
  using assms
  by (simp add: prepare_processed_dir_def Let_def os_makedirs_def split: option.splits)

lemma os_path_exists_created:
  "os_path_exists p (emit (Makedirs p) (w\<lparr>fs := insert p (fs w)\<rparr>))"
  by (simp add: os_path_exists_def emit_def)

text \<open>
  C9. The output directory is the configured directory joined (\<^verbatim>\<open>os.path.join\<close>)
  under the root taken from \<^verbatim>\<open>BEEP_PROCESSING_DIR\<close>, or under \<^verbatim>\<open>/\<close> when the
  variable is absent. Lines 51 to 56 do one of three things with it. When it exists,
  they change nothing and cannot fail. When it does not exist and \<^verbatim>\<open>os.makedirs\<close>
  returns, they have called \<^verbatim>\<open>os.makedirs\<close> on it, once, and it exists afterwards.
  When it does not exist and \<^verbatim>\<open>os.makedirs\<close> raises, they end with that exception.
  For a valid entry that is dispatched, structured and dumped, the location recorded in
  \<^verbatim>\<open>file_list\<close> is a function of the entry, the directory and the current directory
  alone: the base name of the entry without its extension, then \<^verbatim>\<open>.json\<close>, then
  the suffix \<^verbatim>\<open>_structure\<close> put before the final extension, joined to the output
  directory and made absolute. When the stem has a character other than a dot this
  name is the stem followed by \<^verbatim>\<open>_structure.json\<close>.
\<close>

theorem output_location:
  assumes "pd = join (case environ env ''BEEP_PROCESSING_DIR'' of None \<Rightarrow> ''/'' | Some root \<Rightarrow> root)
                  processed_dir"
    and "auto_load env fname w = (Inr dp, w1)"
    and "call_structure env dp w1 = (Inr dp', w2)"
    and "dumpfn env dp' loc w2 = (Inr u, w3)"
    and "stem = fst (splitext (basename fname))"
    and "loc = abspath (getcwd env)
                 (join pd (add_suffix_to_filename (stem @ ''.json'') ''_structure''))"
  shows "(\<forall>w'. os_path_exists pd w' \<longrightarrow>
                 prepare_processed_dir env processed_dir w' = (Inr pd, w')) \<and>
         (\<forall>w'. \<not> os_path_exists pd w' \<and> makedirs_error env pd = None \<longrightarrow>
                 prepare_processed_dir env processed_dir w'
                   = (Inr pd, emit (Makedirs pd) (w'\<lparr>fs := insert pd (fs w')\<rparr>)) \<and>
                 os_path_exists pd (emit (Makedirs pd) (w'\<lparr>fs := insert pd (fs w')\<rparr>))) \<and>
         (\<forall>w' e. \<not> os_path_exists pd w' \<and> makedirs_error env pd = Some e \<longrightarrow>
                 prepare_processed_dir env processed_dir w' = (Inl e, emit (Makedirs pd) w')) \<and>
         structure_entry env pd (fname, ''valid'', rid) acc w
           = (Inr (acc\<lparr>file_list := file_list acc @ [loc],
                       run_list := run_list acc @ [rid],
                       result_list := result_list acc @ [''success''],
                       message_list := message_list acc @ [\<lparr>comment = '''', error = ''''\<rparr>]\<rparr>),
              w3) \<and>
         (list_ex (\<lambda>c. c \<noteq> CHR ''.'') stem \<longrightarrow>
            loc = abspath (getcwd env) (join pd (stem @ ''_structure.json'')))"
proof -
  have pd: "pd = join (root_dir env) processed_dir"
    using assms(1) by (simp add: root_dir_def)
  have loc: "loc = structured_run_loc env pd fname"
    using assms(5,6) by (simp add: structured_run_loc_def)
  have present: "\<forall>w'. os_path_exists pd w' \<longrightarrow>
                   prepare_processed_dir env processed_dir w' = (Inr pd, w')"
    unfolding pd by (simp add: prepare_processed_dir_present)
  have created: "\<forall>w'. \<not> os_path_exists pd w' \<and> makedirs_error env pd = None \<longrightarrow>
                 prepare_processed_dir env processed_dir w'
                   = (Inr pd, emit (Makedirs pd) (w'\<lparr>fs := insert pd (fs w')\<rparr>)) \<and>
                 os_path_exists pd (emit (Makedirs pd) (w'\<lparr>fs := insert pd (fs w')\<rparr>))"
    unfolding pd by (simp add: prepare_processed_dir_absent os_path_exists_created)
  have refused: "\<forall>w' e. \<not> os_path_exists pd w' \<and> makedirs_error env pd = Some e \<longrightarrow>
                 prepare_processed_dir env processed_dir w' = (Inl e, emit (Makedirs pd) w')"
    unfolding pd by (simp add: prepare_processed_dir_absent)
  have entry: "structure_entry env pd (fname, ''valid'', rid) acc w
           = (Inr (acc\<lparr>file_list := file_list acc @ [loc],
                       run_list := run_list acc @ [rid],
                       result_list := result_list acc @ [''success''],
                       message_list := message_list acc @ [\<lparr>comment = '''', error = ''''\<rparr>]\<rparr>),
              w3)"
    unfolding loc using assms(2,3) assms(4) [unfolded loc] by (rule structure_entry_valid)
  have name: "list_ex (\<lambda>c. c \<noteq> CHR ''.'') stem \<longrightarrow>
            loc = abspath (getcwd env) (join pd (stem @ ''_structure.json''))"
    using assms(5,6) no_sep_stem [of fname] by (simp add: add_suffix_json)
  from present created refused entry name show ?thesis
    by (intro conjI)
qed

lemma demo_neware:
  "auto_load (demo_env d) ''/raw/run7/neware_5.x.csv'' w
     = (Inr (NewareDatapath, ''/raw/run7/neware_5.x.csv'', False),
        emit (FromFile NewareDatapath ''/raw/run7/neware_5.x.csv'') w)"
  by (simp add: auto_load_find demo_registry literal_def dot_star_def call_from_file_def
      demo_from_file)

lemma demo_stem: "fst (splitext (basename ''/raw/run7/neware_5.x.csv'')) = ''neware_5.x''"
  by (simp add: basename_def splitext_def rfind_def)

lemma demo_loc:
  "abspath (getcwd (demo_env d))
     (join ''/data-share/structure/''
        (add_suffix_to_filename (''neware_5.x'' @ ''.json'') ''_structure''))
   = ''/data-share/structure/neware_5.x_structure.json''"
  by (simp add: abspath_def normpath_def join_def startswith_def endswith_def
      add_suffix_to_filename_def splitext_def rfind_def)

lemma demo_pd:
  "''/data-share/structure/''
     = join (case environ (demo_env d) ''BEEP_PROCESSING_DIR'' of None \<Rightarrow> ''/'' | Some root \<Rightarrow> root)
         default_processed_dir"
  by (simp add: demo_env_def join_def startswith_def endswith_def default_processed_dir_def)

lemma demo_makedirs: "makedirs_error (demo_env d) p = None"
  by (simp add: demo_env_def)

theorem output_location_witness:
  "\<not> os_path_exists ''/data-share/structure/'' demo_world \<and>
   prepare_processed_dir (demo_env (manifest [] [] [])) default_processed_dir demo_world
     = (Inr ''/data-share/structure/'',
        \<lparr>fs = {''/data-share/structure/''}, trace = [Makedirs ''/data-share/structure/'']\<rparr>) \<and>
   prepare_processed_dir (demo_env (manifest [] [] [])) default_processed_dir
       \<lparr>fs = {''/data-share/structure/''}, trace = [Makedirs ''/data-share/structure/'']\<rparr>
     = (Inr ''/data-share/structure/'',
        \<lparr>fs = {''/data-share/structure/''}, trace = [Makedirs ''/data-share/structure/'']\<rparr>) \<and>
   structure_entry (demo_env (manifest [] [] [])) ''/data-share/structure/''
       (''/raw/run7/neware_5.x.csv'', ''valid'', 7) empty_lists
       \<lparr>fs = {''/data-share/structure/''}, trace = [Makedirs ''/data-share/structure/'']\<rparr>
     = (Inr \<lparr>file_list = [''/data-share/structure/neware_5.x_structure.json''],
             run_list = [7], result_list = [''success''],
             message_list = [\<lparr>comment = '''', error = ''''\<rparr>],
             invalid_file_list = []\<rparr>,
        \<lparr>fs = {''/data-share/structure/neware_5.x_structure.json'',
                ''/data-share/structure/''},
           trace = [Makedirs ''/data-share/structure/'',
                    FromFile NewareDatapath ''/raw/run7/neware_5.x.csv'',
                    Structure (NewareDatapath, ''/raw/run7/neware_5.x.csv'', False),
                    Dumpfn (NewareDatapath, ''/raw/run7/neware_5.x.csv'', True)
                      ''/data-share/structure/neware_5.x_structure.json'']\<rparr>)"
proof -
  let ?env = "demo_env (manifest [] [] [])"
  let ?pd = "''/data-share/structure/''"
  let ?f = "''/raw/run7/neware_5.x.csv''"
  let ?loc = "''/data-share/structure/neware_5.x_structure.json''"
  let ?wp = "\<lparr>fs = {?pd}, trace = [Makedirs ?pd]\<rparr> :: (nat, handler \<times> string \<times> bool) world"
  let ?w1 = "emit (FromFile NewareDatapath ?f) ?wp"
  let ?w2 = "emit (Structure (NewareDatapath, ?f, False)) ?w1"
  let ?w3 = "emit (Dumpfn (NewareDatapath, ?f, True) ?loc) (?w2\<lparr>fs := insert ?loc (fs ?w2)\<rparr>)"
  let ?acc = "empty_lists :: nat output_json"
  have s: "call_structure ?env (NewareDatapath, ?f, False) ?w1 = (Inr (NewareDatapath, ?f, True), ?w2)"
    by (simp add: call_structure_def demo_env_def)
  have d: "dumpfn ?env (NewareDatapath, ?f, True) ?loc ?w2 = (Inr (), ?w3)"
    by (simp add: dumpfn_def demo_env_def)
  have l: "?loc = abspath (getcwd ?env)
                 (join ?pd (add_suffix_to_filename (''neware_5.x'' @ ''.json'') ''_structure''))"
    by (simp only: demo_loc)
  note concl = output_location [OF demo_pd demo_neware s d demo_stem [symmetric] l, of 7 ?acc]
  have absent: "\<not> os_path_exists ?pd demo_world"
    by (simp add: os_path_exists_def demo_world_def)
  have there: "os_path_exists ?pd ?wp"
    by (simp add: os_path_exists_def)
  from concl have "\<forall>w'. \<not> os_path_exists ?pd w' \<and> makedirs_error ?env ?pd = None \<longrightarrow>
                 prepare_processed_dir ?env default_processed_dir w'
                   = (Inr ?pd, emit (Makedirs ?pd) (w'\<lparr>fs := insert ?pd (fs w')\<rparr>)) \<and>
                 os_path_exists ?pd (emit (Makedirs ?pd) (w'\<lparr>fs := insert ?pd (fs w')\<rparr>))"
    by (elim conjE) assumption
  with absent demo_makedirs
  have made: "prepare_processed_dir ?env default_processed_dir demo_world
                = (Inr ?pd, emit (Makedirs ?pd) (demo_world\<lparr>fs := insert ?pd (fs demo_world)\<rparr>))"
    by blast
  from concl have "\<forall>w'. os_path_exists ?pd w' \<longrightarrow>
                 prepare_processed_dir ?env default_processed_dir w' = (Inr ?pd, w')"
    by (elim conjE) assumption
  with there have kept: "prepare_processed_dir ?env default_processed_dir ?wp = (Inr ?pd, ?wp)"
    by blast
  from concl have entry: "structure_entry ?env ?pd (?f, ''valid'', 7) ?acc ?wp
          = (Inr (?acc\<lparr>file_list := file_list ?acc @ [?loc],
                       run_list := run_list ?acc @ [7],
                       result_list := result_list ?acc @ [''success''],
                       message_list := message_list ?acc @
                         [\<lparr>comment = '''', error = ''''\<rparr>]\<rparr>),
             ?w3)"
    by (elim conjE) assumption
  show ?thesis
  proof (intro conjI)
    show "\<not> os_path_exists ?pd demo_world" by (rule absent)
    show "prepare_processed_dir ?env default_processed_dir demo_world = (Inr ?pd, ?wp)"
      using made by (simp add: emit_def demo_world_def)
    show "prepare_processed_dir ?env default_processed_dir ?wp = (Inr ?pd, ?wp)"
      by (rule kept)
    show "structure_entry ?env ?pd (?f, ''valid'', 7) empty_lists ?wp
            = (Inr \<lparr>file_list = [?loc], run_list = [7], result_list = [''success''],
                    message_list = [\<lparr>comment = '''', error = ''''\<rparr>],
                    invalid_file_list = []\<rparr>,
               \<lparr>fs = {?loc, ?pd},
                  trace = [Makedirs ?pd, FromFile NewareDatapath ?f,
                           Structure (NewareDatapath, ?f, False),
                           Dumpfn (NewareDatapath, ?f, True) ?loc]\<rparr>)"
      using entry by (simp add: empty_lists_def emit_def)
  qed
qed





lemma demo_put: "put_workflow_outputs (demo_env d) od label w
                   = (Inr (), emit (PutWorkflowOutputs od label) w)"
  by (simp add: put_workflow_outputs_def demo_env_def)

text \<open>
  C5 on the code. The empty manifest gives a count of zero: the warning is logged and
  the call then raises \<^verbatim>\<open>IndexError\<close>. For comparison, the report step on a count of
  two logs the warning and returns, and on a count of one returns without a warning.
\<close>

theorem empty_manifest_raises:
  "process_file_list_from_json (demo_env (manifest [] [] [])) ''manifest''
       default_processed_dir demo_world
     = (Inl IndexError,
        \<lparr>fs = {''/data-share/structure/''},
           trace = [Makedirs ''/data-share/structure/'',
                    LogWarning ''{file_list_size} files being validated, should be 1'']\<rparr>) \<and>
   workflow_outputs (demo_env (manifest [] [] []))
       \<lparr>file_list = [''/out/a.json'', ''/out/b.json''], run_list = [1, 2],
        result_list = [''success'', ''success''],
        message_list = [\<lparr>comment = '''', error = ''''\<rparr>, \<lparr>comment = '''', error = ''''\<rparr>],
        invalid_file_list = []\<rparr> demo_world
     = (Inr \<lparr>file_list = [''/out/a.json'', ''/out/b.json''], run_list = [1, 2],
             result_list = [''success'', ''success''],
             message_list = [\<lparr>comment = '''', error = ''''\<rparr>, \<lparr>comment = '''', error = ''''\<rparr>],
             invalid_file_list = []\<rparr>,
        \<lparr>fs = {},
           trace = [LogWarning ''{file_list_size} files being validated, should be 1'',
                    PutWorkflowOutputs
                      \<lparr>od_filename = ''/out/a.json'', od_run_id = 1, od_result = ''success''\<rparr>
                      ''structuring'']\<rparr>) \<and>
   workflow_outputs (demo_env (manifest [] [] []))
       \<lparr>file_list = [''/out/a.json''], run_list = [1],
        result_list = [''success''],
        message_list = [\<lparr>comment = '''', error = ''''\<rparr>],
        invalid_file_list = []\<rparr> demo_world
     = (Inr \<lparr>file_list = [''/out/a.json''], run_list = [1],
             result_list = [''success''],
             message_list = [\<lparr>comment = '''', error = ''''\<rparr>],
             invalid_file_list = []\<rparr>,
        \<lparr>fs = {},
           trace = [PutWorkflowOutputs
                      \<lparr>od_filename = ''/out/a.json'', od_run_id = 1, od_result = ''success''\<rparr>
                      ''structuring'']\<rparr>)"
proof (intro conjI)
  show "process_file_list_from_json (demo_env (manifest [] [] [])) ''manifest''
       default_processed_dir demo_world
     = (Inl IndexError,
        \<lparr>fs = {''/data-share/structure/''},
           trace = [Makedirs ''/data-share/structure/'',
                    LogWarning ''{file_list_size} files being validated, should be 1'']\<rparr>)"
    by (simp add: demo_process_no_entries size_warning_def)
qed (simp_all add: size_warning_def workflow_outputs_def index0_def logger_warning_def
      demo_put emit_def demo_world_def)

text \<open>
  What lines 68 to 90 do to the five lists, taken apart from the logging line: entries
  that are not valid only extend \<^verbatim>\<open>invalid_file_list\<close>, in order; valid entries, when
  the loop over them ends normally, extend the four other lists in step, one location,
  run identifier, \<^verbatim>\<open>"success"\<close> and empty message each.
\<close>

lemma structure_entry_invalid:
  "validity \<noteq> ''valid'' \<Longrightarrow>
     structure_entry env pd (fname, validity, rid) acc w
       = (Inr (acc\<lparr>invalid_file_list := invalid_file_list acc @ [fname]\<rparr>), w)"
  by (simp add: structure_entry_def)

lemma for_each_structure_entry_invalid:
  assumes "\<forall>e\<in>set entries. fst (snd e) \<noteq> ''valid''"
  shows "for_each (structure_entry env pd) entries acc w
           = (Inr (acc\<lparr>invalid_file_list := invalid_file_list acc @ map fst entries\<rparr>), w)"
  using assms
proof (induction entries arbitrary: acc)
  case Nil
  then show ?case by simp
next
  case (Cons e entries)
  obtain fname validity rid where e: "e = (fname, validity, rid)"
    by (cases e) auto
  with Cons.prems have "validity \<noteq> ''valid''" by simp
  then have "structure_entry env pd e acc w
               = (Inr (acc\<lparr>invalid_file_list := invalid_file_list acc @ [fname]\<rparr>), w)"
    unfolding e by (rule structure_entry_invalid)
  moreover have "\<forall>e\<in>set entries. fst (snd e) \<noteq> ''valid''"
    using Cons.prems by simp
  ultimately show ?case
    using Cons.IH [of "acc\<lparr>invalid_file_list := invalid_file_list acc @ [fname]\<rparr>"]
    by (simp add: e)
qed


lemma structure_entry_valid_Inr:
  assumes "structure_entry env pd (fname, ''valid'', rid) acc w = (Inr acc', w')"
  shows "acc' = acc\<lparr>file_list := file_list acc @ [structured_run_loc env pd fname],
                     run_list := run_list acc @ [rid],
                     result_list := result_list acc @ [''success''],
                     message_list := message_list acc @ [\<lparr>comment = '''', error = ''''\<rparr>]\<rparr>"
  using assms
  by (auto simp: structure_entry_def Let_def split: prod.splits sum.splits)

lemma for_each_structure_entry_valid:
  assumes "\<forall>e\<in>set entries. fst (snd e) = ''valid''"
    and "for_each (structure_entry env pd) entries acc w = (Inr acc', w')"
  shows "acc' = acc\<lparr>file_list := file_list acc @
                       map (\<lambda>e. structured_run_loc env pd (fst e)) entries,
                     run_list := run_list acc @ map (\<lambda>e. snd (snd e)) entries,
                     result_list := result_list acc @ replicate (length entries) ''success'',
                     message_list := message_list acc @
                       replicate (length entries) \<lparr>comment = '''', error = ''''\<rparr>\<rparr>"
  using assms
proof (induction entries arbitrary: acc w)
  case Nil
  then show ?case by simp
next
  case (Cons e entries)
  obtain fname validity rid where e: "e = (fname, validity, rid)"
    by (cases e) auto
  with Cons.prems(1) have v: "validity = ''valid''" by simp
  from Cons.prems(2) obtain acc1 w1
    where step: "structure_entry env pd (fname, ''valid'', rid) acc w = (Inr acc1, w1)"
      and rest: "for_each (structure_entry env pd) entries acc1 w1 = (Inr acc', w')"
    unfolding e v by (auto split: prod.splits sum.splits)
  have acc1: "acc1 = acc\<lparr>file_list := file_list acc @ [structured_run_loc env pd fname],
                     run_list := run_list acc @ [rid],
                     result_list := result_list acc @ [''success''],
                     message_list := message_list acc @ [\<lparr>comment = '''', error = ''''\<rparr>]\<rparr>"
    using step by (rule structure_entry_valid_Inr)
  have "\<forall>e\<in>set entries. fst (snd e) = ''valid''"
    using Cons.prems(1) by simp
  from Cons.IH [OF this rest] show ?case
    by (simp add: acc1 e replicate_app_Cons_same)
qed

lemma demo_ar2:
  "auto_load (demo_env d) ''AR_2.csv'' w
     = (Inr (MaccorDatapath, ''AR_2.csv'', False), emit (FromFile MaccorDatapath ''AR_2.csv'') w)"
  by (simp add: auto_load_find demo_registry literal_def call_from_file_def demo_from_file)

lemma demo_structure:
  "call_structure (demo_env d) (h, f, b) w
     = (Inr (h, f, True), emit (Structure (h, f, b)) w)"
  by (simp add: call_structure_def demo_env_def)

lemma demo_dumpfn:
  "dumpfn (demo_env d) dp loc w = (Inr (), emit (Dumpfn dp loc) (w\<lparr>fs := insert loc (fs w)\<rparr>))"
  by (simp add: dumpfn_def demo_env_def)

lemma demo_locs:
  "structured_run_loc (demo_env d) ''/data-share/structure/'' ''ARBIN_1.csv''
     = ''/data-share/structure/ARBIN_1_structure.json''"
  "structured_run_loc (demo_env d) ''/data-share/structure/'' ''AR_2.csv''
     = ''/data-share/structure/AR_2_structure.json''"
  by (simp_all add: structured_run_loc_def basename_def splitext_def rfind_def
      add_suffix_to_filename_def abspath_def normpath_def join_def startswith_def endswith_def)

text \<open>
  C6 on the code. A manifest of two valid files that the patterns recognise ends with
  \<^verbatim>\<open>NameError\<close> and no output; lines 68 to 90 alone, run over the same entries, build
  the lists the claim describes.
\<close>

theorem all_valid_manifest_raises:
  "process_file_list_from_json
       (demo_env (manifest [''ARBIN_1.csv'', ''AR_2.csv''] [''valid'', ''valid''] [1, 2]))
       ''manifest'' default_processed_dir demo_world
     = (Inl (NameError ''s''),
        \<lparr>fs = {''/data-share/structure/''}, trace = [Makedirs ''/data-share/structure/'']\<rparr>) \<and>
   fst (for_each (structure_entry (demo_env (manifest [] [] [])) ''/data-share/structure/'')
          [(''ARBIN_1.csv'', ''valid'', 1), (''AR_2.csv'', ''valid'', 2)] empty_lists demo_world)
     = Inr \<lparr>file_list = [''/data-share/structure/ARBIN_1_structure.json'',
                         ''/data-share/structure/AR_2_structure.json''],
            run_list = [1, 2], result_list = [''success'', ''success''],
            message_list = [\<lparr>comment = '''', error = ''''\<rparr>, \<lparr>comment = '''', error = ''''\<rparr>],
            invalid_file_list = []\<rparr>"
  by (simp add: demo_process_entries structure_entry_def Let_def demo_arbin_entry demo_ar2
      demo_structure demo_dumpfn demo_locs empty_lists_def)

text \<open>
  C7 on the code. A manifest of two files that are not valid ends with
  \<^verbatim>\<open>NameError\<close> and no output. Lines 68 to 90 alone build the lists the claim
  describes, and the report step would then fail on them with \<^verbatim>\<open>IndexError\<close>, the
  list of processed files being empty.
\<close>

theorem all_invalid_manifest_raises:
  "process_file_list_from_json
       (demo_env (manifest [''ARBIN_1.csv'', ''AR_2.csv''] [''invalid'', ''skip''] [1, 2]))
       ''manifest'' default_processed_dir demo_world
     = (Inl (NameError ''s''),
        \<lparr>fs = {''/data-share/structure/''}, trace = [Makedirs ''/data-share/structure/'']\<rparr>) \<and>
   for_each (structure_entry (demo_env (manifest [] [] [])) ''/data-share/structure/'')
       [(''ARBIN_1.csv'', ''invalid'', 1), (''AR_2.csv'', ''skip'', 2)] empty_lists demo_world
     = (Inr \<lparr>file_list = [], run_list = [], result_list = [], message_list = [],
             invalid_file_list = [''ARBIN_1.csv'', ''AR_2.csv'']\<rparr>, demo_world) \<and>
   fst (workflow_outputs (demo_env (manifest [] [] []))
          \<lparr>file_list = [], run_list = [], result_list = [], message_list = [],
           invalid_file_list = [''ARBIN_1.csv'', ''AR_2.csv'']\<rparr> demo_world)
     = Inl IndexError"
  by (simp add: demo_process_entries structure_entry_def empty_lists_def
      workflow_outputs_empty)

end
